theory Spec2Isabelle
  imports Complex_Main "HOL-Library.Word"
begin

unbundle bit_operations_syntax

section \<open>Mean surface temperature over an area of interest: the script and its platform\<close>

text \<open>
  The script \<^verbatim>\<open>arset_suhi_for_mrcog_st_v01_20221006.js\<close> is a straight-line program over the
  image and image-collection values of a remote-sensing platform. Its own code is two
  functions (\<^verbatim>\<open>cloudMask\<close>, \<^verbatim>\<open>applyScaleFactors\<close>), the configuration constants and one chain
  of collection operations. The platform's operations are not part of the script; each is
  given below as a definition marked \<^emph>\<open>Modelled from the spec\<close>, and the script's functions
  are written over them call by call.

  Numbers: the platform computes the temperature conversion in double precision. The
  model computes it in exact real arithmetic; rounding is not modelled. Integer bands are
  unbounded integers: the script applies only bitwise and boolean operations to them.

  Faults: the platform evaluates lazily and reports a fault when a result is requested.
  The model raises it where the operation is applied, so a fault in one image of a
  collection is a fault of the collection.

  Effects: the map display, the console prints, the histogram chart and the export task
  take no part in the values computed and are left out.
\<close>

subsection \<open>Data model\<close>

text \<open>A pixel position of the shared grid.\<close>

type_synonym pixel = "int \<times> int"

text \<open>
  One band: a grid of samples with a pixel type fixed for the whole band. A masked
  (invalid) pixel carries no value: \<open>None\<close>.
\<close>

datatype raster = IntR "pixel \<Rightarrow> int option" | DblR "pixel \<Rightarrow> real option"

text \<open>A geometry: a polygon ring of longitude/latitude vertices, or an intersection.\<close>

datatype geometry = Polygon "(real \<times> real) list" | Intersection geometry geometry

text \<open>
  An image: named bands in order, scalar metadata by name (\<^verbatim>\<open>CLOUD_COVER\<close>), the calendar
  fields of its acquisition time by name (\<^verbatim>\<open>year\<close>, \<^verbatim>\<open>day_of_year\<close>; \<open>None\<close> for an image
  without a time stamp), its footprint (\<open>None\<close> for an unbounded image) and its index in
  the collection.
\<close>

record image =
  bands :: "(string \<times> raster) list"
  properties :: "string \<Rightarrow> real option"
  time_field :: "string \<Rightarrow> int option"
  footprint :: "geometry option"
  system_index :: string

text \<open>The faults the platform raises on the operations the script uses.\<close>

datatype error = BandNotFound string | BandMismatch | NotInteger

text \<open>The geometric predicates of the platform, taken as parameters.\<close>

type_synonym intersects = "geometry \<Rightarrow> geometry \<Rightarrow> bool"
type_synonym covers = "geometry \<Rightarrow> pixel \<Rightarrow> bool"

subsection \<open>Samples and rasters\<close>

fun as_real :: "raster \<Rightarrow> pixel \<Rightarrow> real option" where
  "as_real (IntR f) p = map_option real_of_int (f p)"
| "as_real (DblR f) p = f p"

definition lift2 :: "('a \<Rightarrow> 'b \<Rightarrow> 'c) \<Rightarrow> 'a option \<Rightarrow> 'b option \<Rightarrow> 'c option" where
  "lift2 f a b =
     (case a of None \<Rightarrow> None
      | Some x \<Rightarrow> (case b of None \<Rightarrow> None | Some y \<Rightarrow> Some (f x y)))"

text \<open>
  Modelled from the spec: per-pixel arithmetic of the platform (not in the script). Two
  integer bands give an integer band, any other pair a double band; the result is masked
  wherever either operand is.
\<close>

fun arith :: "(int \<Rightarrow> int \<Rightarrow> int) \<Rightarrow> (real \<Rightarrow> real \<Rightarrow> real) \<Rightarrow> raster \<Rightarrow> raster \<Rightarrow> raster" where
  "arith fi fr (IntR f) (IntR g) = IntR (\<lambda>p. lift2 fi (f p) (g p))"
| "arith fi fr (IntR f) (DblR g) = DblR (\<lambda>p. lift2 fr (map_option real_of_int (f p)) (g p))"
| "arith fi fr (DblR f) (IntR g) = DblR (\<lambda>p. lift2 fr (f p) (map_option real_of_int (g p)))"
| "arith fi fr (DblR f) (DblR g) = DblR (\<lambda>p. lift2 fr (f p) (g p))"

text \<open>
  Modelled from the spec: the platform's bitwise AND of two bands, defined on integer
  bands only.
\<close>

fun and_raster :: "raster \<Rightarrow> raster \<Rightarrow> error + raster" where
  "and_raster (IntR f) (IntR g) = Inr (IntR (\<lambda>p. lift2 (\<lambda>x y. x AND y) (f p) (g p)))"
| "and_raster _ _ = Inl NotInteger"

text \<open>
  Modelled from the spec: the platform's logical OR (1 where either value is non-zero, else
  0) and logical NOT (1 where the value is zero, else 0), with its truthiness coercion.
\<close>

definition or_raster :: "raster \<Rightarrow> raster \<Rightarrow> raster" where
  "or_raster a b =
     IntR (\<lambda>p. lift2 (\<lambda>x y. if x \<noteq> 0 \<or> y \<noteq> 0 then 1 else 0) (as_real a p) (as_real b p))"

definition not_raster :: "raster \<Rightarrow> raster" where
  "not_raster a = IntR (\<lambda>p. map_option (\<lambda>x. if x = 0 then 1 else 0) (as_real a p))"

text \<open>Keep the samples of a band where \<open>keep\<close> holds, mask the others.\<close>

fun restrict_raster :: "(pixel \<Rightarrow> bool) \<Rightarrow> raster \<Rightarrow> raster" where
  "restrict_raster keep (IntR f) = IntR (\<lambda>p. if keep p then f p else None)"
| "restrict_raster keep (DblR f) = DblR (\<lambda>p. if keep p then f p else None)"

text \<open>A mask band lets a pixel through where it has a value and the value is not zero.\<close>

definition passes :: "raster \<Rightarrow> pixel \<Rightarrow> bool" where
  "passes m p = (case as_real m p of None \<Rightarrow> False | Some v \<Rightarrow> v \<noteq> 0)"

subsection \<open>Image operations of the platform\<close>

fun mapM :: "('a \<Rightarrow> error + 'b) \<Rightarrow> 'a list \<Rightarrow> error + 'b list" where
  "mapM f [] = Inr []"
| "mapM f (x # xs) =
     (case f x of Inl e \<Rightarrow> Inl e
      | Inr y \<Rightarrow> (case mapM f xs of Inl e \<Rightarrow> Inl e | Inr ys \<Rightarrow> Inr (y # ys)))"

text \<open>
  Modelled from the spec: band selection by name (\<^verbatim>\<open>image.select\<close>). The result holds the
  named bands in the order asked for and keeps the metadata; a name that matches no band
  is a fault.
\<close>

fun pick_bands :: "(string \<times> raster) list \<Rightarrow> string list \<Rightarrow> error + (string \<times> raster) list" where
  "pick_bands bs [] = Inr []"
| "pick_bands bs (n # ns) =
     (case map_of bs n of None \<Rightarrow> Inl (BandNotFound n)
      | Some r \<Rightarrow> (case pick_bands bs ns of Inl e \<Rightarrow> Inl e | Inr rs \<Rightarrow> Inr ((n, r) # rs)))"

definition select :: "string list \<Rightarrow> image \<Rightarrow> error + image" where
  "select ns img =
     (case pick_bands (bands img) ns of Inl e \<Rightarrow> Inl e | Inr bs \<Rightarrow> Inr (img\<lparr>bands := bs\<rparr>))"

text \<open>
  Modelled from the spec: a number passed where an image is expected becomes a constant
  image of one unmasked band, integer-typed when the number is integral.
\<close>

definition const_raster :: "real \<Rightarrow> raster" where
  "const_raster c =
     (if c = real_of_int \<lfloor>c\<rfloor> then IntR (\<lambda>p. Some \<lfloor>c\<rfloor>) else DblR (\<lambda>p. Some c))"

definition constant_image :: "real \<Rightarrow> image" where
  "constant_image c =
     \<lparr>bands = [(''constant'', const_raster c)],
      properties = (\<lambda>k. None), time_field = (\<lambda>k. None),
      footprint = None, system_index = []\<rparr>"

text \<open>
  Modelled from the spec: band matching of a binary image operation. An operand of one
  band is used against every band of the other; operands with equally many bands are
  paired in order; the result is named after the first image (after the second when only
  the first has a single band).
\<close>

definition match_bands ::
  "(raster \<Rightarrow> raster \<Rightarrow> error + raster) \<Rightarrow> (string \<times> raster) list \<Rightarrow> (string \<times> raster) list
    \<Rightarrow> error + (string \<times> raster) list" where
  "match_bands f as bs =
     (case bs of
        [(_, rb)] \<Rightarrow>
          mapM (\<lambda>(n, ra). case f ra rb of Inl e \<Rightarrow> Inl e | Inr r \<Rightarrow> Inr (n, r)) as
      | _ \<Rightarrow>
        (case as of
           [(_, ra)] \<Rightarrow>
             mapM (\<lambda>(n, rb). case f ra rb of Inl e \<Rightarrow> Inl e | Inr r \<Rightarrow> Inr (n, r)) bs
         | _ \<Rightarrow>
           if length as = length bs
           then mapM (\<lambda>((n, ra), (_, rb)). case f ra rb of Inl e \<Rightarrow> Inl e | Inr r \<Rightarrow> Inr (n, r))
                  (zip as bs)
           else Inl BandMismatch))"

text \<open>
  Modelled from the spec: the image a per-pixel computation returns. It has the computed
  bands and the footprint of the first operand, and none of its scalar metadata (the
  script never reads the metadata of such a result: it copies the bands back with
  \<^verbatim>\<open>addBands\<close> or uses them as a mask).
\<close>

definition computed :: "image \<Rightarrow> (string \<times> raster) list \<Rightarrow> image" where
  "computed a rs =
     \<lparr>bands = rs, properties = (\<lambda>k. None), time_field = (\<lambda>k. None),
      footprint = footprint a, system_index = []\<rparr>"

definition binop :: "(raster \<Rightarrow> raster \<Rightarrow> error + raster) \<Rightarrow> image \<Rightarrow> image \<Rightarrow> error + image" where
  "binop f a b =
     (case match_bands f (bands a) (bands b) of
        Inl e \<Rightarrow> Inl e
      | Inr rs \<Rightarrow> Inr (computed a rs))"

definition multiply :: "image \<Rightarrow> image \<Rightarrow> error + image" where
  "multiply = binop (\<lambda>a b. Inr (arith (\<lambda>x y. x * y) (\<lambda>x y. x * y) a b))"

definition add :: "image \<Rightarrow> image \<Rightarrow> error + image" where
  "add = binop (\<lambda>a b. Inr (arith (\<lambda>x y. x + y) (\<lambda>x y. x + y) a b))"

definition subtract :: "image \<Rightarrow> image \<Rightarrow> error + image" where
  "subtract = binop (\<lambda>a b. Inr (arith (\<lambda>x y. x - y) (\<lambda>x y. x - y) a b))"

definition bitwiseAnd :: "image \<Rightarrow> image \<Rightarrow> error + image" where
  "bitwiseAnd = binop and_raster"

definition or_img :: "image \<Rightarrow> image \<Rightarrow> error + image" where
  "or_img = binop (\<lambda>a b. Inr (or_raster a b))"

definition not_img :: "image \<Rightarrow> image" where
  "not_img a = computed a (map (\<lambda>(n, r). (n, not_raster r)) (bands a))"

text \<open>
  Modelled from the spec: \<^verbatim>\<open>image.updateMask(mask)\<close>. A pixel of the result is valid where
  it was valid before and the mask lets it through; values, band names and metadata are
  kept. A mask of one band applies to every band; otherwise the mask must have as many
  bands as the image, and they apply in order.
\<close>

definition updateMask :: "image \<Rightarrow> image \<Rightarrow> error + image" where
  "updateMask img m =
     (case bands m of
        [(_, rm)] \<Rightarrow>
          Inr (img\<lparr>bands := map (\<lambda>(n, r). (n, restrict_raster (passes rm) r)) (bands img)\<rparr>)
      | ms \<Rightarrow>
          if length ms = length (bands img)
          then Inr (img\<lparr>bands :=
                 map (\<lambda>((n, r), (_, rm)). (n, restrict_raster (passes rm) r))
                   (zip (bands img) ms)\<rparr>)
          else Inl BandMismatch)"

text \<open>
  Modelled from the spec: \<^verbatim>\<open>image.addBands(src, null, true)\<close>, the only form the script
  calls: every band of \<open>src\<close> is copied into the image, overwriting in place a band of the
  same name and appended otherwise; the metadata is the image's own.
\<close>

fun put_band :: "(string \<times> raster) list \<Rightarrow> string \<times> raster \<Rightarrow> (string \<times> raster) list" where
  "put_band [] nb = [nb]"
| "put_band ((n, r) # bs) (m, s) = (if n = m then (m, s) # bs else (n, r) # put_band bs (m, s))"

definition addBands :: "image \<Rightarrow> image \<Rightarrow> image" where
  "addBands img src = img\<lparr>bands := foldl put_band (bands img) (bands src)\<rparr>"

text \<open>
  Modelled from the spec: \<^verbatim>\<open>image.clip(geometry)\<close>. Samples not covered by the geometry are
  masked; bands and metadata are kept and the footprint is cut to the geometry.
\<close>

definition clip :: "covers \<Rightarrow> image \<Rightarrow> geometry \<Rightarrow> image" where
  "clip cov img g =
     img\<lparr>bands := map (\<lambda>(n, r). (n, restrict_raster (cov g) r)) (bands img),
         footprint := (case footprint img of None \<Rightarrow> Some g | Some f \<Rightarrow> Some (Intersection f g))\<rparr>"

subsection \<open>Collection operations of the platform\<close>

text \<open>
  Modelled from the spec: the filters the script builds. A range whose start exceeds its
  end wraps around; a filter on a missing property or time stamp rejects the image.
\<close>

datatype ee_filter =
    DayOfYear int int
  | CalendarRange int int string
  | Lt string real
  | Bounds geometry

definition in_range :: "int \<Rightarrow> int \<Rightarrow> int \<Rightarrow> bool" where
  "in_range lo hi v = (if lo \<le> hi then lo \<le> v \<and> v \<le> hi else lo \<le> v \<or> v \<le> hi)"

fun accepts :: "intersects \<Rightarrow> ee_filter \<Rightarrow> image \<Rightarrow> bool" where
  "accepts isect (DayOfYear lo hi) img =
     (case time_field img ''day_of_year'' of None \<Rightarrow> False | Some d \<Rightarrow> in_range lo hi d)"
| "accepts isect (CalendarRange lo hi field) img =
     (case time_field img field of None \<Rightarrow> False | Some v \<Rightarrow> in_range lo hi v)"
| "accepts isect (Lt name bound) img =
     (case properties img name of None \<Rightarrow> False | Some v \<Rightarrow> v < bound)"
| "accepts isect (Bounds g) img =
     (case footprint img of None \<Rightarrow> True | Some f \<Rightarrow> isect f g)"

definition filter_coll :: "intersects \<Rightarrow> ee_filter \<Rightarrow> image list \<Rightarrow> image list" where
  "filter_coll isect flt coll = filter (accepts isect flt) coll"

definition filterBounds :: "intersects \<Rightarrow> geometry \<Rightarrow> image list \<Rightarrow> image list" where
  "filterBounds isect g coll = filter_coll isect (Bounds g) coll"

text \<open>
  Modelled from the spec: the temporal mean (\<^verbatim>\<open>collection.mean()\<close>). Per band of the first
  image and per pixel, the reducer runs over the images with a running sum and a count of
  the valid samples; with no valid sample the output pixel is masked.
\<close>

fun mean_step :: "real \<times> nat \<Rightarrow> real option \<Rightarrow> real \<times> nat" where
  "mean_step (s, n) None = (s, n)"
| "mean_step (s, n) (Some v) = (s + v, Suc n)"

definition mean_pixel :: "real option list \<Rightarrow> real option" where
  "mean_pixel xs =
     (case foldl mean_step (0, 0) xs of (s, n) \<Rightarrow> if n = 0 then None else Some (s / real n))"

definition band_at :: "string \<Rightarrow> pixel \<Rightarrow> image \<Rightarrow> real option" where
  "band_at b p img = (case map_of (bands img) b of None \<Rightarrow> None | Some r \<Rightarrow> as_real r p)"

text \<open>A pixel of a band is valid when it has a value there.\<close>

definition valid_at :: "image \<Rightarrow> string \<Rightarrow> pixel \<Rightarrow> bool" where
  "valid_at img b p = (band_at b p img \<noteq> None)"

definition mean_coll :: "image list \<Rightarrow> image" where
  "mean_coll coll =
     \<lparr>bands =
        (case coll of [] \<Rightarrow> []
         | first # _ \<Rightarrow>
             map (\<lambda>(b, _). (b, DblR (\<lambda>p. mean_pixel (map (band_at b p) coll)))) (bands first)),
      properties = (\<lambda>k. None), time_field = (\<lambda>k. None),
      footprint = None, system_index = []\<rparr>"

subsection \<open>The script\<close>

text \<open>User inputs (lines 36 to 64 of the script).\<close>

definition start_day :: int where "start_day = 182"
definition end_day :: int where "end_day = 243"
definition start_year :: int where "start_year = 2013"
definition end_year :: int where "end_year = 2022"

definition aoi :: geometry where
  "aoi = Polygon [(-107.655533, 36.242138), (-105.265001, 36.242138),
                  (-105.265001, 34.233749), (-107.655533, 34.233749)]"

definition STUDYBOUNDS :: geometry where
  "STUDYBOUNDS = aoi"

definition DATE_RANGE :: ee_filter where
  "DATE_RANGE = DayOfYear start_day end_day"

definition YEAR_RANGE :: ee_filter where
  "YEAR_RANGE = CalendarRange start_year end_year ''year''"

text \<open>JavaScript's \<^verbatim>\<open>a << b\<close>: a 32-bit signed shift, the count taken modulo 32.\<close>

definition js_shl :: "int \<Rightarrow> int \<Rightarrow> int" where
  "js_shl a b = sint (push_bit (nat (b mod 32)) (word_of_int a :: 32 word))"

text \<open>
  \<^verbatim>\<open>function cloudMask(image)\<close>, lines 114 to 119:
  \<^verbatim>\<open>qa = image.select('QA_PIXEL');
  mask = qa.bitwiseAnd(1 << 3).or(qa.bitwiseAnd(1 << 4));
  return image.updateMask(mask.not());\<close>
\<close>

definition cloudMask :: "image \<Rightarrow> error + image" where
  "cloudMask img =
     (case select [''QA_PIXEL''] img of Inl e \<Rightarrow> Inl e
      | Inr qa \<Rightarrow>
     (case bitwiseAnd qa (constant_image (real_of_int (js_shl 1 3))) of Inl e \<Rightarrow> Inl e
      | Inr cloud \<Rightarrow>
     (case bitwiseAnd qa (constant_image (real_of_int (js_shl 1 4))) of Inl e \<Rightarrow> Inl e
      | Inr shadow \<Rightarrow>
     (case or_img cloud shadow of Inl e \<Rightarrow> Inl e
      | Inr msk \<Rightarrow> updateMask img (not_img msk)))))"

text \<open>
  \<^verbatim>\<open>function applyScaleFactors(image)\<close>, lines 139 to 142:
  \<^verbatim>\<open>thermalBands = image.select('ST_B10').multiply(0.00341802).add(149.0)
      .subtract(273.15).multiply(1.8).add(32);
  return image.addBands(thermalBands, null, true);\<close>
  The chain is cut at the two intermediate units: \<open>kelvin\<close> is the chain up to
  \<^verbatim>\<open>.add(149.0)\<close>, \<open>celsius\<close> up to \<^verbatim>\<open>.subtract(273.15)\<close>.
\<close>

definition kelvin :: "image \<Rightarrow> error + image" where
  "kelvin img =
     (case select [''ST_B10''] img of Inl e \<Rightarrow> Inl e
      | Inr raw \<Rightarrow>
     (case multiply raw (constant_image 0.00341802) of Inl e \<Rightarrow> Inl e
      | Inr scaled \<Rightarrow> add scaled (constant_image 149.0)))"

definition celsius :: "image \<Rightarrow> error + image" where
  "celsius img =
     (case kelvin img of Inl e \<Rightarrow> Inl e
      | Inr k \<Rightarrow> subtract k (constant_image 273.15))"

definition thermalBands :: "image \<Rightarrow> error + image" where
  "thermalBands img =
     (case celsius img of Inl e \<Rightarrow> Inl e
      | Inr c \<Rightarrow>
     (case multiply c (constant_image 1.8) of Inl e \<Rightarrow> Inl e
      | Inr ninefifths \<Rightarrow> add ninefifths (constant_image 32)))"

definition applyScaleFactors :: "image \<Rightarrow> error + image" where
  "applyScaleFactors img =
     (case thermalBands img of Inl e \<Rightarrow> Inl e
      | Inr t \<Rightarrow> Inr (addBands img t))"

text \<open>
  The collection chain, lines 123 to 168. \<open>src\<close> is the platform's collection
  \<^verbatim>\<open>LANDSAT/LC08/C02/T1_L2\<close>.
\<close>

definition L8 :: "intersects \<Rightarrow> image list \<Rightarrow> error + image list" where
  "L8 isect src =
     (case mapM (select [''ST_B10'', ''QA_PIXEL'']) src of Inl e \<Rightarrow> Inl e
      | Inr sel \<Rightarrow>
          mapM cloudMask
            (filter_coll isect YEAR_RANGE
              (filter_coll isect DATE_RANGE
                (filterBounds isect STUDYBOUNDS sel))))"

definition filtered_L8 :: "intersects \<Rightarrow> image list \<Rightarrow> error + image list" where
  "filtered_L8 isect src =
     (case L8 isect src of Inl e \<Rightarrow> Inl e
      | Inr c \<Rightarrow> Inr (filter_coll isect (Lt ''CLOUD_COVER'' 20) c))"

definition landsatST :: "intersects \<Rightarrow> image list \<Rightarrow> error + image list" where
  "landsatST isect src =
     (case filtered_L8 isect src of Inl e \<Rightarrow> Inl e | Inr c \<Rightarrow> mapM applyScaleFactors c)"

definition mean_LandsatST :: "intersects \<Rightarrow> image list \<Rightarrow> error + image" where
  "mean_LandsatST isect src =
     (case landsatST isect src of Inl e \<Rightarrow> Inl e | Inr c \<Rightarrow> Inr (mean_coll c))"

definition one_band :: "intersects \<Rightarrow> image list \<Rightarrow> error + image" where
  "one_band isect src =
     (case mean_LandsatST isect src of Inl e \<Rightarrow> Inl e | Inr m \<Rightarrow> select [''ST_B10''] m)"

definition clip_mean_ST :: "intersects \<Rightarrow> covers \<Rightarrow> image list \<Rightarrow> error + image" where
  "clip_mean_ST isect cov src =
     (case one_band isect src of Inl e \<Rightarrow> Inl e | Inr b \<Rightarrow> Inr (clip cov b STUDYBOUNDS))"

definition values_ST :: "intersects \<Rightarrow> covers \<Rightarrow> image list \<Rightarrow> error + image" where
  "values_ST isect cov src =
     (case clip_mean_ST isect cov src of Inl e \<Rightarrow> Inl e | Inr c \<Rightarrow> select [''ST_B10''] c)"

subsection \<open>Closed forms of the script's functions\<close>

text \<open>
  What the script's functions return on an image of the product, written as total
  functions; the lemmas of the next section prove them equal to the functions above.
  \<open>has_schema\<close> is the invariant of the product's schema: a thermal band and an integer
  quality band.
\<close>

definition has_schema :: "image \<Rightarrow> bool" where
  "has_schema img =
     (case map_of (bands img) ''ST_B10'' of None \<Rightarrow> False
      | Some st \<Rightarrow>
          (case map_of (bands img) ''QA_PIXEL'' of None \<Rightarrow> False
           | Some (IntR qa) \<Rightarrow> True
           | Some (DblR x) \<Rightarrow> False))"

text \<open>
  The pixels the mask lets through, read off the \<^verbatim>\<open>QA_PIXEL\<close> samples: those with a value
  whose bits of weight 8 and 16 are both clear.
\<close>

definition cloud_free :: "(pixel \<Rightarrow> int option) \<Rightarrow> pixel \<Rightarrow> bool" where
  "cloud_free qa p = (case qa p of None \<Rightarrow> False | Some v \<Rightarrow> v AND 8 = 0 \<and> v AND 16 = 0)"

text \<open>
  The three stages of the conversion on one band, as the chain applies them: scale and
  offset, then the shift to the Celsius zero, then the Fahrenheit scale and offset.
\<close>

definition kelvin_raster :: "raster \<Rightarrow> raster" where
  "kelvin_raster r =
     arith (\<lambda>x y. x + y) (\<lambda>x y. x + y)
       (arith (\<lambda>x y. x * y) (\<lambda>x y. x * y) r (const_raster 0.00341802)) (const_raster 149.0)"

definition celsius_raster :: "raster \<Rightarrow> raster" where
  "celsius_raster r =
     arith (\<lambda>x y. x - y) (\<lambda>x y. x - y) (kelvin_raster r) (const_raster 273.15)"

definition fahrenheit_raster :: "raster \<Rightarrow> raster" where
  "fahrenheit_raster r =
     arith (\<lambda>x y. x + y) (\<lambda>x y. x + y)
       (arith (\<lambda>x y. x * y) (\<lambda>x y. x * y) (celsius_raster r) (const_raster 1.8)) (const_raster 32)"

definition selected :: "image \<Rightarrow> image" where
  "selected img =
     (case map_of (bands img) ''ST_B10'' of None \<Rightarrow> img
      | Some st \<Rightarrow>
          (case map_of (bands img) ''QA_PIXEL'' of None \<Rightarrow> img
           | Some q \<Rightarrow> img\<lparr>bands := [(''ST_B10'', st), (''QA_PIXEL'', q)]\<rparr>))"

definition masked :: "image \<Rightarrow> image" where
  "masked img =
     (case map_of (bands img) ''QA_PIXEL'' of
        Some (IntR qa) \<Rightarrow>
          img\<lparr>bands := map (\<lambda>(n, r). (n, restrict_raster (cloud_free qa) r)) (bands img)\<rparr>
      | _ \<Rightarrow> img)"

definition converted :: "image \<Rightarrow> image" where
  "converted img =
     (case map_of (bands img) ''ST_B10'' of None \<Rightarrow> img
      | Some r \<Rightarrow> img\<lparr>bands := put_band (bands img) (''ST_B10'', fahrenheit_raster r)\<rparr>)"

definition composite :: "image list \<Rightarrow> image" where
  "composite coll =
     \<lparr>bands = [(''ST_B10'', DblR (\<lambda>p. mean_pixel (map (band_at ''ST_B10'' p) coll)))],
      properties = (\<lambda>k. None), time_field = (\<lambda>k. None), footprint = None,
      system_index = []\<rparr>"

subsection \<open>The specification's predicates\<close>

text \<open>
  Written from the specification's words, to be compared with the script. An image is in
  the seasonal window when it intersects the area of interest, its day of year is in
  [182, 243] and its year in [2013, 2022]; it is included when, in addition, it reports a
  cloud cover strictly below 20.
\<close>

definition in_window :: "intersects \<Rightarrow> image \<Rightarrow> bool" where
  "in_window isect img =
     ((case footprint img of None \<Rightarrow> True | Some f \<Rightarrow> isect f aoi) \<and>
      (case time_field img ''day_of_year'' of None \<Rightarrow> False | Some d \<Rightarrow> 182 \<le> d \<and> d \<le> 243) \<and>
      (case time_field img ''year'' of None \<Rightarrow> False | Some y \<Rightarrow> 2013 \<le> y \<and> y \<le> 2022))"

definition spec_included :: "intersects \<Rightarrow> image \<Rightarrow> bool" where
  "spec_included isect img =
     (in_window isect img \<and>
      (case properties img ''CLOUD_COVER'' of None \<Rightarrow> False | Some c \<Rightarrow> c < 20))"

text \<open>The values \<open>v1 .. vk\<close> of the images that are valid at a pixel of a band, in order.\<close>

fun valid_values :: "string \<Rightarrow> pixel \<Rightarrow> image list \<Rightarrow> real list" where
  "valid_values b p [] = []"
| "valid_values b p (img # rest) =
     (case band_at b p img of None \<Rightarrow> valid_values b p rest
      | Some v \<Rightarrow> v # valid_values b p rest)"

subsection \<open>Example scenes\<close>

text \<open>
  Concrete inputs on which the theorems below are exercised. A scene has the two bands of
  the product as integer bands, a cloud-cover percentage, an acquisition day and year, and
  a footprint.
\<close>

definition scene ::
  "string \<Rightarrow> (pixel \<Rightarrow> int option) \<Rightarrow> (pixel \<Rightarrow> int option) \<Rightarrow> real \<Rightarrow> int \<Rightarrow> int \<Rightarrow> image" where
  "scene idx st qa cc d y =
     \<lparr>bands = [(''ST_B10'', IntR st), (''QA_PIXEL'', IntR qa)],
      properties = (\<lambda>k. if k = ''CLOUD_COVER'' then Some cc else None),
      time_field = (\<lambda>k. if k = ''day_of_year'' then Some d
                         else if k = ''year'' then Some y else None),
      footprint = Some (Polygon [(-107, 36), (-106, 36), (-106, 35), (-107, 35)]),
      system_index = idx\<rparr>"

definition uniform :: "int \<Rightarrow> pixel \<Rightarrow> int option" where
  "uniform v p = Some v"

text \<open>
  Quality samples: cloud (22280, bit 3 set) at pixel (0, 0), cloud shadow (23888, bit 4 set)
  at pixel (1, 0), clear (21824) elsewhere.
\<close>

definition mixed_qa :: "pixel \<Rightarrow> int option" where
  "mixed_qa p = (if p = (0, 0) then Some 22280 else if p = (1, 0) then Some 23888 else Some 21824)"

definition cloudy_scene :: image where
  "cloudy_scene = scene ''LC08_033036_20150719'' (uniform 44000) mixed_qa 12 200 2015"

text \<open>
  A scene whose thermal band is valid everywhere and whose quality band has no value at
  pixel (0, 0), cloud (22280) at (1, 0), cloud shadow (23888) at (2, 0) and clear samples
  (21824) elsewhere.
\<close>

definition gap_qa :: "pixel \<Rightarrow> int option" where
  "gap_qa p =
     (if p = (0, 0) then None else if p = (1, 0) then Some 22280
      else if p = (2, 0) then Some 23888 else Some 21824)"

definition blind_scene :: image where
  "blind_scene = scene ''LC08_033036_20190714'' (uniform 44000) gap_qa 7 195 2019"

text \<open>A scene whose thermal band has no data at pixel (0, 0).\<close>

definition gap_st :: "pixel \<Rightarrow> int option" where
  "gap_st p = (if p = (0, 0) then None else Some 44000)"

definition gappy_scene :: image where
  "gappy_scene = scene ''LC08_033036_20160806'' gap_st (uniform 21824) 3 219 2016"

text \<open>A clear scene whose thermal band holds the digital count 20000 everywhere.\<close>

definition count_scene :: image where
  "count_scene = scene ''LC08_033036_20170708'' (uniform 20000) (uniform 21824) 5 189 2017"

text \<open>
  Scenes that fail one filter each: cloud cover equal to 20, a winter day, a year before
  the range, a footprint far from the area of interest.
\<close>

definition hazy_scene :: image where
  "hazy_scene = scene ''LC08_033036_20180727'' (uniform 45000) (uniform 21824) 20 208 2018"

definition winter_scene :: image where
  "winter_scene = scene ''LC08_033036_20190120'' (uniform 30000) (uniform 21824) 1 20 2019"

definition early_scene :: image where
  "early_scene = scene ''LC08_033036_20120715'' (uniform 43000) (uniform 21824) 2 197 2012"

definition far_scene :: image where
  "far_scene = (scene ''LC08_045030_20200710'' (uniform 41000) (uniform 21824) 4 192 2020)
     \<lparr>footprint := Some (Polygon [(-123, 46), (-121, 46), (-121, 44), (-123, 44)])\<rparr>"

definition archive :: "image list" where
  "archive = [cloudy_scene, gappy_scene, count_scene, hazy_scene, winter_scene, early_scene,
              far_scene]"

text \<open>
  An instance of the geometric predicates: geometries are compared by their bounding
  boxes (west, east, south, north), which is exact for the axis-parallel rectangles of the
  examples, on a grid of one-degree pixels with pixel (0, 0) centred at longitude -107.5
  and latitude 35.5, columns running east and rows running south.
\<close>

definition span :: "real list \<Rightarrow> (real \<times> real) option" where
  "span xs = (case xs of [] \<Rightarrow> None | x # rest \<Rightarrow> Some (fold min rest x, fold max rest x))"

fun box :: "geometry \<Rightarrow> ((real \<times> real) \<times> (real \<times> real)) option" where
  "box (Polygon vs) =
     (case span (map fst vs) of None \<Rightarrow> None
      | Some lon \<Rightarrow> (case span (map snd vs) of None \<Rightarrow> None | Some lat \<Rightarrow> Some (lon, lat)))"
| "box (Intersection a b) =
     (case box a of None \<Rightarrow> None
      | Some ((w1, e1), (s1, n1)) \<Rightarrow>
          (case box b of None \<Rightarrow> None
           | Some ((w2, e2), (s2, n2)) \<Rightarrow>
               if max w1 w2 \<le> min e1 e2 \<and> max s1 s2 \<le> min n1 n2
               then Some ((max w1 w2, min e1 e2), (max s1 s2, min n1 n2)) else None))"

definition box_intersects :: intersects where
  "box_intersects f g =
     (case box f of None \<Rightarrow> False
      | Some ((w1, e1), (s1, n1)) \<Rightarrow>
          (case box g of None \<Rightarrow> False
           | Some ((w2, e2), (s2, n2)) \<Rightarrow> max w1 w2 \<le> min e1 e2 \<and> max s1 s2 \<le> min n1 n2))"

definition grid_covers :: covers where
  "grid_covers g p =
     (case box g of None \<Rightarrow> False
      | Some ((w, e), (s, n)) \<Rightarrow>
          w \<le> real_of_int (fst p) - 107.5 \<and> real_of_int (fst p) - 107.5 \<le> e \<and>
          s \<le> 35.5 - real_of_int (snd p) \<and> 35.5 - real_of_int (snd p) \<le> n)"

text \<open>The sample of a band at a pixel in the result of an operation that may fail.\<close>

definition value_of :: "error + image \<Rightarrow> string \<Rightarrow> pixel \<Rightarrow> error + real option" where
  "value_of res b p = (case res of Inl e \<Rightarrow> Inl e | Inr img \<Rightarrow> Inr (band_at b p img))"

section \<open>Properties\<close>

subsection \<open>Evaluation lemmas for the platform operations\<close>

lemma js_shl_1_3: "js_shl 1 3 = 8"
  by (simp add: js_shl_def)

lemma js_shl_1_4: "js_shl 1 4 = 16"
  by (simp add: js_shl_def)

lemma mapM_total_pair:
  "mapM (\<lambda>(n, r). Inr (n, g r)) xs = Inr (map (\<lambda>(n, r). (n, g r)) xs)"
  by (induction xs) auto

lemma match_bands_single:
  "match_bands f as [(n, rb)] =
     mapM (\<lambda>(n, ra). case f ra rb of Inl e \<Rightarrow> Inl e | Inr r \<Rightarrow> Inr (n, r)) as"
  by (simp add: match_bands_def)

lemma match_bands_single_total:
  "match_bands (\<lambda>a b. Inr (g a b)) as [(n, rb)] = Inr (map (\<lambda>(n, ra). (n, g ra rb)) as)"
  by (simp add: match_bands_single mapM_total_pair)

lemma const_raster_numeral: "const_raster (numeral k) = IntR (\<lambda>p. Some (numeral k))"
  by (simp add: const_raster_def)

lemma bands_constant_image: "bands (constant_image c) = [(''constant'', const_raster c)]"
  by (simp add: constant_image_def)

lemma select_one:
  "map_of (bands img) n = Some r \<Longrightarrow> select [n] img = Inr (img\<lparr>bands := [(n, r)]\<rparr>)"
  by (simp add: select_def)

lemma as_real_restrict:
  "as_real (restrict_raster keep r) p = (if keep p then as_real r p else None)"
  by (cases r) simp_all

lemma restrict_restrict:
  "restrict_raster k (restrict_raster k r) = restrict_raster k r"
  by (cases r) (simp_all add: fun_eq_iff)

lemma map_of_map_bands:
  "map_of (map (\<lambda>(n, r). (n, f r)) bs) b = map_option f (map_of bs b)"
  by (induction bs) auto

lemma band_at_restrict:
  "band_at b p (img\<lparr>bands := map (\<lambda>(n, r). (n, restrict_raster keep r)) (bands img)\<rparr>)
     = (if keep p then band_at b p img else None)"
  by (simp add: band_at_def map_of_map_bands as_real_restrict split: option.splits)

lemma bands_computed [simp]: "bands (computed a rs) = rs"
  by (simp add: computed_def)

lemma computed_computed [simp]: "computed (computed a rs) ts = computed a ts"
  by (simp add: computed_def)

lemma computed_bands_update [simp]: "computed (a\<lparr>bands := rs\<rparr>) ts = computed a ts"
  by (simp add: computed_def)

lemma binop_constant:
  "binop (\<lambda>a b. Inr (g a b)) a (constant_image c) =
     Inr (computed a (map (\<lambda>(n, r). (n, g r (const_raster c))) (bands a)))"
  by (simp add: binop_def bands_constant_image match_bands_single_total)

lemma as_real_times_const:
  "as_real (arith (\<lambda>x y. x * y) (\<lambda>x y. x * y) r (const_raster c)) p
     = map_option (\<lambda>x. x * c) (as_real r p)"
  by (cases r) (auto simp: const_raster_def lift2_def split: option.splits)

lemma as_real_plus_const:
  "as_real (arith (\<lambda>x y. x + y) (\<lambda>x y. x + y) r (const_raster c)) p
     = map_option (\<lambda>x. x + c) (as_real r p)"
  by (cases r) (auto simp: const_raster_def lift2_def split: option.splits)

lemma as_real_minus_const:
  "as_real (arith (\<lambda>x y. x - y) (\<lambda>x y. x - y) r (const_raster c)) p
     = map_option (\<lambda>x. x - c) (as_real r p)"
  by (cases r) (auto simp: const_raster_def lift2_def split: option.splits)

lemma map_of_put_band:
  "map_of (put_band bs (n, s)) m = (if m = n then Some s else map_of bs m)"
  by (induction bs) auto

lemma map_fst_put_band:
  "n \<in> fst ` set bs \<Longrightarrow> map fst (put_band bs (n, s)) = map fst bs"
  by (induction bs) force+

lemma nth_put_band:
  "i < length bs \<Longrightarrow> fst (bs ! i) \<noteq> n \<Longrightarrow> put_band bs (n, s) ! i = bs ! i"
proof (induction bs arbitrary: i)
  case Nil
  then show ?case by simp
next
  case (Cons b bs)
  then show ?case by (cases b; cases i) auto
qed

subsection \<open>The cloud mask\<close>

lemma bit3: "bit (v::int) 3 \<longleftrightarrow> v AND 8 \<noteq> 0"
  using bit_iff_and_push_bit_not_eq_0[of v 3] by simp

lemma bit4: "bit (v::int) 4 \<longleftrightarrow> v AND 16 \<noteq> 0"
  using bit_iff_and_push_bit_not_eq_0[of v 4] by simp

text \<open>
  On an image whose \<^verbatim>\<open>QA_PIXEL\<close> band is an integer band, \<open>cloudMask\<close> returns the image
  with every band restricted to the cloud-free pixels.
\<close>

lemma cloudMask_eq:
  assumes "map_of (bands img) ''QA_PIXEL'' = Some (IntR qa)"
  shows "cloudMask img =
    Inr (img\<lparr>bands := map (\<lambda>(n, r). (n, restrict_raster (cloud_free qa) r)) (bands img)\<rparr>)"
proof -
  have p: "passes (not_raster (or_raster
              (IntR (\<lambda>p. lift2 (\<lambda>x y. x AND y) (qa p) (Some 8)))
              (IntR (\<lambda>p. lift2 (\<lambda>x y. x AND y) (qa p) (Some 16))))) = cloud_free qa"
    by (auto simp: fun_eq_iff passes_def not_raster_def or_raster_def lift2_def cloud_free_def
        split: option.splits)
  show ?thesis
    using assms
    by (simp add: cloudMask_def select_one js_shl_1_3 js_shl_1_4 bands_constant_image
        const_raster_numeral bitwiseAnd_def or_img_def updateMask_def binop_def
        match_bands_single match_bands_single_total not_img_def p)
qed

text \<open>
  Without a \<^verbatim>\<open>QA_PIXEL\<close> band the selection faults; where \<^verbatim>\<open>QA_PIXEL\<close> has no value the
  mask has none either, and the pixel is invalid in every band of the result.
\<close>

lemma cloudMask_no_band:
  "map_of (bands img) ''QA_PIXEL'' = None \<Longrightarrow> cloudMask img = Inl (BandNotFound ''QA_PIXEL'')"
  by (simp add: cloudMask_def select_def)

lemma cloudMask_no_quality_value:
  assumes "map_of (bands img) ''QA_PIXEL'' = Some (IntR qa)" and "qa p = None"
  shows "\<exists>out. cloudMask img = Inr out \<and> \<not> valid_at out b p"
  using assms
  by (simp add: cloudMask_eq valid_at_def band_at_restrict cloud_free_def)

lemma cloud_free_restrict:
  "cloud_free (\<lambda>p. if cloud_free qa p then qa p else None) = cloud_free qa"
  by (auto simp: fun_eq_iff cloud_free_def split: option.splits)

text \<open>
  C2, as stated, fails: in the scene whose \<^verbatim>\<open>QA_PIXEL\<close> band has no value at pixel (0, 0),
  neither bit is set there and the thermal band is valid there, yet the output of
  \<open>cloudMask\<close> is invalid there.
\<close>

theorem cloudMask_no_quality_counterexample:
  "map_of (bands blind_scene) ''QA_PIXEL'' = Some (IntR gap_qa) \<and>
   gap_qa (0, 0) = None \<and>
   valid_at blind_scene ''ST_B10'' (0, 0) \<and>
   value_of (cloudMask blind_scene) ''ST_B10'' (0, 0) = Inr None"
proof -
  have qa: "map_of (bands blind_scene) ''QA_PIXEL'' = Some (IntR gap_qa)"
    by (simp add: blind_scene_def scene_def)
  have g: "gap_qa (0, 0) = None"
    by (simp add: gap_qa_def)
  have v: "valid_at blind_scene ''ST_B10'' (0, 0)"
    by (simp add: valid_at_def band_at_def blind_scene_def scene_def uniform_def)
  have c: "value_of (cloudMask blind_scene) ''ST_B10'' (0, 0) = Inr None"
    by (simp add: cloudMask_eq [OF qa] value_of_def band_at_restrict cloud_free_def g)
  from qa g v c show ?thesis by simp
qed

text \<open>
  C2, amended. On every image whose \<^verbatim>\<open>QA_PIXEL\<close> band is an integer band, \<open>cloudMask\<close>
  returns, and for every band and every pixel: the pixel is valid in the output exactly
  when it is valid in the input and \<^verbatim>\<open>QA_PIXEL\<close> has a value there with neither bit 3
  (cloud) nor bit 4 (cloud shadow) set. So it is invalid where either bit is set and where
  \<^verbatim>\<open>QA_PIXEL\<close> has no value, and where \<^verbatim>\<open>QA_PIXEL\<close> has a value with neither bit set its
  validity and its value are those of the input.
\<close>

theorem cloudMask_validity:
  assumes "map_of (bands img) ''QA_PIXEL'' = Some (IntR qa)"
  shows "\<exists>out. cloudMask img = Inr out \<and>
           (\<forall>b p. valid_at out b p =
              (valid_at img b p \<and> (\<exists>v. qa p = Some v \<and> \<not> bit v 3 \<and> \<not> bit v 4))) \<and>
           (\<forall>b p. band_at b p out =
              (case qa p of None \<Rightarrow> None
               | Some v \<Rightarrow> if bit v 3 \<or> bit v 4 then None else band_at b p img))"
proof -
  let ?out = "img\<lparr>bands := map (\<lambda>(n, r). (n, restrict_raster (cloud_free qa) r)) (bands img)\<rparr>"
  have run: "cloudMask img = Inr ?out"
    using assms by (rule cloudMask_eq)
  have free: "cloud_free qa p = (\<exists>v. qa p = Some v \<and> \<not> bit v 3 \<and> \<not> bit v 4)" for p
    by (simp add: cloud_free_def bit3 bit4 split: option.splits)
  have val: "\<And>b p. valid_at ?out b p =
      (valid_at img b p \<and> (\<exists>v. qa p = Some v \<and> \<not> bit v 3 \<and> \<not> bit v 4))"
    by (auto simp: valid_at_def band_at_restrict free)
  have smp: "\<And>b p. band_at b p ?out =
      (case qa p of None \<Rightarrow> None
       | Some v \<Rightarrow> if bit v 3 \<or> bit v 4 then None else band_at b p img)"
    by (simp add: band_at_restrict cloud_free_def bit3 bit4 split: option.splits)
  from run val smp show ?thesis by simp
qed

theorem cloudMask_validity_witness:
  "map_of (bands blind_scene) ''QA_PIXEL'' = Some (IntR gap_qa) \<and>
   (\<exists>out. cloudMask blind_scene = Inr out \<and>
      \<not> valid_at out ''ST_B10'' (0, 0) \<and>
      \<not> valid_at out ''ST_B10'' (1, 0) \<and>
      \<not> valid_at out ''ST_B10'' (2, 0) \<and>
      valid_at out ''ST_B10'' (3, 0) \<and>
      band_at ''ST_B10'' (3, 0) out = Some 44000)"
proof -
  have qa: "map_of (bands blind_scene) ''QA_PIXEL'' = Some (IntR gap_qa)"
    by (simp add: blind_scene_def scene_def)
  from cloudMask_validity [OF qa] obtain out where
    run: "cloudMask blind_scene = Inr out" and
    val: "\<And>b p. valid_at out b p =
            (valid_at blind_scene b p \<and>
             (\<exists>v. gap_qa p = Some v \<and> \<not> bit v 3 \<and> \<not> bit v 4))" and
    smp: "\<And>b p. band_at b p out =
            (case gap_qa p of None \<Rightarrow> None
             | Some v \<Rightarrow> if bit v 3 \<or> bit v 4 then None else band_at b p blind_scene)"
    by blast
  have st: "band_at ''ST_B10'' p blind_scene = Some 44000" for p
    by (simp add: band_at_def blind_scene_def scene_def uniform_def)
  have n: "\<not> valid_at out ''ST_B10'' (0, 0)"
    by (simp add: val gap_qa_def)
  have c: "\<not> valid_at out ''ST_B10'' (1, 0)"
    by (simp add: val gap_qa_def)
  have s: "\<not> valid_at out ''ST_B10'' (2, 0)"
    by (simp add: val gap_qa_def)
  have x: "band_at ''ST_B10'' (3, 0) out = Some 44000"
    by (simp add: smp gap_qa_def st)
  have k: "valid_at out ''ST_B10'' (3, 0)"
    unfolding val by (simp add: gap_qa_def valid_at_def st)
  from qa run n c s k x show ?thesis by simp
qed

text \<open>
  C10. \<open>cloudMask\<close> is idempotent without condition on the bits: on every image whose
  \<^verbatim>\<open>QA_PIXEL\<close> band is an integer band, it returns an image on which a second application
  returns that same image (bands, values, validity and metadata).
\<close>

theorem cloudMask_idempotent:
  assumes "map_of (bands img) ''QA_PIXEL'' = Some (IntR qa)"
  shows "\<exists>once. cloudMask img = Inr once \<and> cloudMask once = Inr once"
proof -
  let ?k = "cloud_free qa"
  let ?once = "img\<lparr>bands := map (\<lambda>(n, r). (n, restrict_raster ?k r)) (bands img)\<rparr>"
  have first: "cloudMask img = Inr ?once"
    using assms by (rule cloudMask_eq)
  have qa': "map_of (bands ?once) ''QA_PIXEL'' = Some (IntR (\<lambda>p. if ?k p then qa p else None))"
    using assms by (simp add: map_of_map_bands)
  have "cloudMask ?once =
      Inr (?once\<lparr>bands := map (\<lambda>(n, r). (n, restrict_raster ?k r)) (bands ?once)\<rparr>)"
    using cloudMask_eq [OF qa'] by (simp only: cloud_free_restrict)
  also have "\<dots> = Inr ?once"
    by (simp add: restrict_restrict case_prod_unfold comp_def)
  finally show ?thesis using first by blast
qed

theorem cloudMask_idempotent_witness:
  "map_of (bands cloudy_scene) ''QA_PIXEL'' = Some (IntR mixed_qa) \<and>
   (\<exists>once. cloudMask cloudy_scene = Inr once \<and> cloudMask once = Inr once \<and>
      \<not> valid_at once ''ST_B10'' (0, 0))"
proof -
  have qa: "map_of (bands cloudy_scene) ''QA_PIXEL'' = Some (IntR mixed_qa)"
    by (simp add: cloudy_scene_def scene_def)
  from cloudMask_idempotent [OF qa] obtain once where
    o: "cloudMask cloudy_scene = Inr once" "cloudMask once = Inr once"
    by blast
  have "\<not> valid_at once ''ST_B10'' (0, 0)"
    using o(1) unfolding cloudMask_eq [OF qa]
    by (auto simp: valid_at_def band_at_restrict cloud_free_def mixed_qa_def)
  with qa o show ?thesis by blast
qed

subsection \<open>The scale-factor conversion\<close>

lemma kelvin_eq:
  "map_of (bands img) ''ST_B10'' = Some r \<Longrightarrow>
   kelvin img = Inr (computed img [(''ST_B10'', kelvin_raster r)])"
  by (simp add: kelvin_def select_one multiply_def add_def binop_constant kelvin_raster_def)

lemma celsius_eq:
  "map_of (bands img) ''ST_B10'' = Some r \<Longrightarrow>
   celsius img = Inr (computed img [(''ST_B10'', celsius_raster r)])"
  by (simp add: celsius_def kelvin_eq subtract_def binop_constant celsius_raster_def)

lemma thermalBands_eq:
  "map_of (bands img) ''ST_B10'' = Some r \<Longrightarrow>
   thermalBands img = Inr (computed img [(''ST_B10'', fahrenheit_raster r)])"
  by (simp add: thermalBands_def celsius_eq multiply_def add_def binop_constant
      fahrenheit_raster_def)

lemma applyScaleFactors_eq:
  "map_of (bands img) ''ST_B10'' = Some r \<Longrightarrow>
   applyScaleFactors img =
     Inr (img\<lparr>bands := put_band (bands img) (''ST_B10'', fahrenheit_raster r)\<rparr>)"
  by (simp add: applyScaleFactors_def thermalBands_eq addBands_def)

lemma as_real_kelvin:
  "as_real (kelvin_raster r) p = map_option (\<lambda>raw. raw * 0.00341802 + 149.0) (as_real r p)"
  by (simp add: kelvin_raster_def as_real_times_const as_real_plus_const option.map_comp comp_def)

lemma as_real_celsius:
  "as_real (celsius_raster r) p
     = map_option (\<lambda>raw. (raw * 0.00341802 + 149.0) - 273.15) (as_real r p)"
  by (simp add: celsius_raster_def as_real_kelvin as_real_minus_const option.map_comp comp_def)

lemma as_real_fahrenheit:
  "as_real (fahrenheit_raster r) p
     = map_option (\<lambda>raw. ((raw * 0.00341802 + 149.0) - 273.15) * 1.8 + 32) (as_real r p)"
  by (simp add: fahrenheit_raster_def as_real_celsius as_real_times_const as_real_plus_const
      option.map_comp comp_def)

text \<open>
  C1. On every image that has a band \<^verbatim>\<open>ST_B10\<close>, \<open>applyScaleFactors\<close> returns an image whose
  \<^verbatim>\<open>ST_B10\<close> sample at every pixel is \<open>((raw * 0.00341802 + 149.0) - 273.15) * 1.8 + 32\<close> of
  the input sample \<open>raw\<close> there (and no value where the input has none).
\<close>

theorem applyScaleFactors_formula:
  assumes "map_of (bands img) ''ST_B10'' = Some r"
  shows "\<exists>out. applyScaleFactors img = Inr out \<and>
           (\<forall>p. band_at ''ST_B10'' p out =
                  map_option (\<lambda>raw. ((raw * 0.00341802 + 149.0) - 273.15) * 1.8 + 32)
                    (band_at ''ST_B10'' p img))"
  using assms
  by (simp add: applyScaleFactors_eq band_at_def map_of_put_band as_real_fahrenheit)

theorem applyScaleFactors_formula_witness:
  "map_of (bands cloudy_scene) ''ST_B10'' = Some (IntR (uniform 44000)) \<and>
   (\<exists>out. applyScaleFactors cloudy_scene = Inr out \<and>
      band_at ''ST_B10'' (2, 0) out = Some 79.237184)"
proof -
  have st: "map_of (bands cloudy_scene) ''ST_B10'' = Some (IntR (uniform 44000))"
    by (simp add: cloudy_scene_def scene_def)
  have raw: "band_at ''ST_B10'' (2, 0) cloudy_scene = Some 44000"
    by (simp add: band_at_def cloudy_scene_def scene_def uniform_def)
  from applyScaleFactors_formula [OF st] obtain out where
    run: "applyScaleFactors cloudy_scene = Inr out" and
    px: "\<And>p. band_at ''ST_B10'' p out =
            map_option (\<lambda>raw. ((raw * 0.00341802 + 149.0) - 273.15) * 1.8 + 32)
              (band_at ''ST_B10'' p cloudy_scene)"
    by blast
  have "band_at ''ST_B10'' (2, 0) out = Some 79.237184"
    by (simp add: px raw)
  with st run show ?thesis by simp
qed

text \<open>
  C8. On every image that has a band \<^verbatim>\<open>ST_B10\<close>, \<open>applyScaleFactors\<close> returns an image with
  the same band names in the same order, in which every band not named \<^verbatim>\<open>ST_B10\<close>
  (\<^verbatim>\<open>QA_PIXEL\<close> among them) is the input's band, every pixel that was invalid in a band of
  the input is invalid in that band of the output, and the metadata is the input's.
\<close>

theorem applyScaleFactors_frame:
  assumes "map_of (bands img) ''ST_B10'' = Some r"
  shows "\<exists>out. applyScaleFactors img = Inr out \<and>
           map fst (bands out) = map fst (bands img) \<and>
           (\<forall>i < length (bands img).
              fst (bands img ! i) \<noteq> ''ST_B10'' \<longrightarrow> bands out ! i = bands img ! i) \<and>
           (\<forall>b. b \<noteq> ''ST_B10'' \<longrightarrow> map_of (bands out) b = map_of (bands img) b) \<and>
           (\<forall>b p. \<not> valid_at img b p \<longrightarrow> \<not> valid_at out b p) \<and>
           properties out = properties img \<and> time_field out = time_field img \<and>
           footprint out = footprint img \<and> system_index out = system_index img"
proof -
  let ?out = "img\<lparr>bands := put_band (bands img) (''ST_B10'', fahrenheit_raster r)\<rparr>"
  from assms have mem: "''ST_B10'' \<in> fst ` set (bands img)"
    by (metis domI dom_map_of_conv_image_fst)
  have "\<And>b p. \<not> valid_at img b p \<Longrightarrow> \<not> valid_at ?out b p"
    using assms
    by (auto simp: valid_at_def band_at_def map_of_put_band as_real_fahrenheit
        split: if_splits option.splits)
  then show ?thesis
    using assms mem
    by (simp add: applyScaleFactors_eq map_fst_put_band nth_put_band map_of_put_band)
qed

theorem applyScaleFactors_frame_witness:
  "map_of (bands gappy_scene) ''ST_B10'' = Some (IntR gap_st) \<and>
   (\<exists>out. applyScaleFactors gappy_scene = Inr out \<and>
      map fst (bands out) = [''ST_B10'', ''QA_PIXEL''] \<and>
      map_of (bands out) ''QA_PIXEL'' = Some (IntR (uniform 21824)) \<and>
      \<not> valid_at out ''ST_B10'' (0, 0) \<and>
      system_index out = ''LC08_033036_20160806'')"
proof -
  have st: "map_of (bands gappy_scene) ''ST_B10'' = Some (IntR gap_st)"
    by (simp add: gappy_scene_def scene_def)
  from applyScaleFactors_frame [OF st] obtain out where
    run: "applyScaleFactors gappy_scene = Inr out" and
    names: "map fst (bands out) = map fst (bands gappy_scene)" and
    other: "\<And>b. b \<noteq> ''ST_B10'' \<Longrightarrow> map_of (bands out) b = map_of (bands gappy_scene) b" and
    masked: "\<And>b p. \<not> valid_at gappy_scene b p \<Longrightarrow> \<not> valid_at out b p" and
    idx: "system_index out = system_index gappy_scene"
    by blast
  have n: "map fst (bands out) = [''ST_B10'', ''QA_PIXEL'']"
    using names by (simp add: gappy_scene_def scene_def)
  have q: "map_of (bands out) ''QA_PIXEL'' = Some (IntR (uniform 21824))"
    using other [of "''QA_PIXEL''"] by (simp add: gappy_scene_def scene_def)
  have m: "\<not> valid_at out ''ST_B10'' (0, 0)"
    by (rule masked) (simp add: valid_at_def band_at_def gappy_scene_def scene_def gap_st_def)
  have i: "system_index out = ''LC08_033036_20160806''"
    using idx by (simp add: gappy_scene_def scene_def)
  from st run n q m i show ?thesis by simp
qed

lemma band_at_Some:
  "band_at b p img = Some v \<Longrightarrow> \<exists>r. map_of (bands img) b = Some r \<and> as_real r p = Some v"
  by (auto simp: band_at_def split: option.splits)

text \<open>
  C5, as stated, fails: on the scene whose thermal band holds the digital count 20000, the
  chain up to \<^verbatim>\<open>.add(149.0)\<close> gives 217.3604 (Kelvin), not 249.36, and the converted value
  is -68.42128, not about -10.82.
\<close>

theorem conversion_at_20000_counterexample:
  "value_of (kelvin count_scene) ''ST_B10'' (0, 0) = Inr (Some 217.3604) \<and>
   \<bar>217.3604 - 249.36\<bar> > (31 :: real) \<and>
   value_of (applyScaleFactors count_scene) ''ST_B10'' (0, 0) = Inr (Some (- 68.42128)) \<and>
   \<bar>- 68.42128 - (- 10.82)\<bar> > (57 :: real)"
proof -
  have r: "map_of (bands count_scene) ''ST_B10'' = Some (IntR (uniform 20000))"
    by (simp add: count_scene_def scene_def)
  have k: "value_of (kelvin count_scene) ''ST_B10'' (0, 0) = Inr (Some 217.3604)"
    by (simp add: kelvin_eq [OF r] value_of_def band_at_def as_real_kelvin uniform_def)
  have f: "value_of (applyScaleFactors count_scene) ''ST_B10'' (0, 0) = Inr (Some (- 68.42128))"
    by (simp add: applyScaleFactors_eq [OF r] value_of_def band_at_def map_of_put_band
        as_real_fahrenheit uniform_def)
  from k f show ?thesis by simp
qed

text \<open>
  C5, amended. At every pixel where the thermal band of an image holds the digital count
  20000, the conversion passes through 217.3604 Kelvin and -55.7896 degrees Celsius and
  yields -68.42128 degrees Fahrenheit (in exact arithmetic).
\<close>

theorem conversion_at_20000:
  assumes "band_at ''ST_B10'' p img = Some 20000"
  shows "value_of (kelvin img) ''ST_B10'' p = Inr (Some 217.3604) \<and>
         value_of (celsius img) ''ST_B10'' p = Inr (Some (- 55.7896)) \<and>
         value_of (applyScaleFactors img) ''ST_B10'' p = Inr (Some (- 68.42128))"
proof -
  from band_at_Some [OF assms] obtain r where
    r: "map_of (bands img) ''ST_B10'' = Some r" and v: "as_real r p = Some 20000"
    by blast
  have k: "value_of (kelvin img) ''ST_B10'' p = Inr (Some 217.3604)"
    by (simp add: kelvin_eq [OF r] value_of_def band_at_def as_real_kelvin v)
  have c: "value_of (celsius img) ''ST_B10'' p = Inr (Some (- 55.7896))"
    by (simp add: celsius_eq [OF r] value_of_def band_at_def as_real_celsius v)
  have f: "value_of (applyScaleFactors img) ''ST_B10'' p = Inr (Some (- 68.42128))"
    by (simp add: applyScaleFactors_eq [OF r] value_of_def band_at_def map_of_put_band
        as_real_fahrenheit v)
  from k c f show ?thesis by simp
qed

theorem conversion_at_20000_witness:
  "band_at ''ST_B10'' (4, 7) count_scene = Some 20000 \<and>
   value_of (kelvin count_scene) ''ST_B10'' (4, 7) = Inr (Some 217.3604) \<and>
   value_of (celsius count_scene) ''ST_B10'' (4, 7) = Inr (Some (- 55.7896)) \<and>
   value_of (applyScaleFactors count_scene) ''ST_B10'' (4, 7) = Inr (Some (- 68.42128))"
proof -
  have h: "band_at ''ST_B10'' (4, 7) count_scene = Some 20000"
    by (simp add: band_at_def count_scene_def scene_def uniform_def)
  from h conversion_at_20000 [OF h] show ?thesis by simp
qed

subsection \<open>The collection chain in closed form\<close>

lemma mapM_Inr:
  "(\<And>x. x \<in> set xs \<Longrightarrow> f x = Inr (g x)) \<Longrightarrow> mapM f xs = Inr (map g xs)"
  by (induction xs) simp_all

lemma select_schema:
  "has_schema img \<Longrightarrow> select [''ST_B10'', ''QA_PIXEL''] img = Inr (selected img)"
  by (auto simp: has_schema_def select_def selected_def split: option.splits raster.splits)

lemma selected_bands:
  "has_schema img \<Longrightarrow>
   \<exists>st qa. bands (selected img) = [(''ST_B10'', st), (''QA_PIXEL'', IntR qa)]"
  by (auto simp: has_schema_def selected_def split: option.splits raster.splits)

lemma cloudMask_masked:
  "map_of (bands img) ''QA_PIXEL'' = Some (IntR qa) \<Longrightarrow> cloudMask img = Inr (masked img)"
  by (simp add: cloudMask_eq masked_def)

lemma applyScaleFactors_converted:
  "map_of (bands img) ''ST_B10'' = Some r \<Longrightarrow> applyScaleFactors img = Inr (converted img)"
  by (simp add: applyScaleFactors_eq converted_def)

lemma prepared_bands:
  assumes "has_schema img"
  shows "\<exists>st qa. bands (masked (selected img)) = [(''ST_B10'', st), (''QA_PIXEL'', qa)]"
proof -
  from selected_bands [OF assms] obtain st qa where
    "bands (selected img) = [(''ST_B10'', st), (''QA_PIXEL'', IntR qa)]" by blast
  then show ?thesis by (simp add: masked_def)
qed

lemma converted_names:
  assumes "has_schema img"
  shows "map fst (bands (converted (masked (selected img)))) = [''ST_B10'', ''QA_PIXEL'']"
proof -
  from prepared_bands [OF assms] obtain st qa where
    "bands (masked (selected img)) = [(''ST_B10'', st), (''QA_PIXEL'', qa)]" by blast
  then show ?thesis by (simp add: converted_def)
qed

text \<open>The filters read the metadata only, which selection and masking keep.\<close>

lemma accepts_selected [simp]: "accepts isect flt (selected img) = accepts isect flt img"
  by (cases flt) (auto simp: selected_def split: option.splits)

lemma accepts_masked [simp]: "accepts isect flt (masked img) = accepts isect flt img"
  by (cases flt) (auto simp: masked_def split: option.splits raster.splits)

lemma system_index_selected [simp]: "system_index (selected img) = system_index img"
  by (auto simp: selected_def split: option.splits)

lemma system_index_masked [simp]: "system_index (masked img) = system_index img"
  by (auto simp: masked_def split: option.splits raster.splits)

lemma properties_masked_selected [simp]:
  "properties (masked (selected img)) = properties img"
  by (auto simp: masked_def selected_def split: option.splits raster.splits)

lemma in_window_accepts:
  "in_window isect img =
     (accepts isect (Bounds STUDYBOUNDS) img \<and> accepts isect DATE_RANGE img \<and>
      accepts isect YEAR_RANGE img)"
  by (auto simp: in_window_def STUDYBOUNDS_def DATE_RANGE_def YEAR_RANGE_def in_range_def
      start_day_def end_day_def start_year_def end_year_def split: option.splits)

lemma spec_included_accepts:
  "spec_included isect img
     = (in_window isect img \<and> accepts isect (Lt ''CLOUD_COVER'' 20) img)"
  by (simp add: spec_included_def)

lemma in_window_selected [simp]: "in_window isect (selected img) = in_window isect img"
  by (simp add: in_window_accepts del: accepts.simps)

lemma window_filters:
  "filter_coll isect YEAR_RANGE
     (filter_coll isect DATE_RANGE (filterBounds isect STUDYBOUNDS xs))
   = filter (in_window isect) xs"
  unfolding filter_coll_def filterBounds_def filter_filter
  by (rule filter_cong) (auto simp: in_window_accepts simp del: accepts.simps)

lemma cloud_cover_filter:
  "filter_coll isect (Lt ''CLOUD_COVER'' 20)
     (map (masked \<circ> selected) (filter (in_window isect) xs))
   = map (masked \<circ> selected) (filter (spec_included isect) xs)"
proof -
  have "filter (accepts isect (Lt ''CLOUD_COVER'' 20)) (filter (in_window isect) xs)
        = filter (spec_included isect) xs"
    unfolding filter_filter
    by (rule filter_cong) (auto simp: spec_included_accepts simp del: accepts.simps)
  then show ?thesis
    by (simp add: filter_coll_def filter_map comp_def del: accepts.simps filter_filter)
qed

lemma L8_eq:
  assumes "\<forall>img \<in> set src. has_schema img"
  shows "L8 isect src = Inr (map (masked \<circ> selected) (filter (in_window isect) src))"
proof -
  have sel: "mapM (select [''ST_B10'', ''QA_PIXEL'']) src = Inr (map selected src)"
    using assms by (intro mapM_Inr select_schema) simp
  have flt: "filter_coll isect YEAR_RANGE
              (filter_coll isect DATE_RANGE
                (filterBounds isect STUDYBOUNDS (map selected src)))
             = map selected (filter (in_window isect) src)"
    by (simp add: window_filters filter_map comp_def)
  have "mapM cloudMask (map selected (filter (in_window isect) src))
        = Inr (map masked (map selected (filter (in_window isect) src)))"
  proof (rule mapM_Inr)
    fix x assume "x \<in> set (map selected (filter (in_window isect) src))"
    then obtain img where "img \<in> set src" and x: "x = selected img" by auto
    with assms have "has_schema img" by simp
    from selected_bands [OF this] x show "cloudMask x = Inr (masked x)"
      by (auto intro: cloudMask_masked)
  qed
  then show ?thesis
    by (simp add: L8_def sel flt)
qed

lemma filtered_L8_eq:
  assumes "\<forall>img \<in> set src. has_schema img"
  shows "filtered_L8 isect src
    = Inr (map (masked \<circ> selected) (filter (spec_included isect) src))"
  by (simp add: filtered_L8_def L8_eq [OF assms] cloud_cover_filter)

lemma landsatST_eq:
  assumes "\<forall>img \<in> set src. has_schema img"
  shows "landsatST isect src
    = Inr (map (converted \<circ> (masked \<circ> selected)) (filter (spec_included isect) src))"
proof -
  have "mapM applyScaleFactors (map (masked \<circ> selected) (filter (spec_included isect) src))
        = Inr (map converted (map (masked \<circ> selected) (filter (spec_included isect) src)))"
  proof (rule mapM_Inr)
    fix x assume "x \<in> set (map (masked \<circ> selected) (filter (spec_included isect) src))"
    then obtain img where "img \<in> set src" and x: "x = masked (selected img)" by auto
    with assms have "has_schema img" by simp
    from prepared_bands [OF this] x show "applyScaleFactors x = Inr (converted x)"
      by (auto intro: applyScaleFactors_converted)
  qed
  then show ?thesis
    by (simp add: landsatST_def filtered_L8_eq [OF assms])
qed

text \<open>
  The chain returns a composite as soon as one image passes the filters; with none, the
  mean has no band and the selection of \<^verbatim>\<open>ST_B10\<close> is a fault.
\<close>

lemma one_band_eq:
  assumes "\<forall>img \<in> set src. has_schema img" and "filter (spec_included isect) src \<noteq> []"
  shows "one_band isect src
    = Inr (composite (map (converted \<circ> (masked \<circ> selected))
            (filter (spec_included isect) src)))"
proof -
  let ?coll = "map (converted \<circ> (masked \<circ> selected)) (filter (spec_included isect) src)"
  from assms(2) obtain x xs where f: "filter (spec_included isect) src = x # xs"
    by (cases "filter (spec_included isect) src") auto
  then have "x \<in> set (filter (spec_included isect) src)"
    by simp
  then have "x \<in> set src"
    by simp
  with assms(1) have "has_schema x" by simp
  then have "map fst (bands (converted (masked (selected x)))) = [''ST_B10'', ''QA_PIXEL'']"
    by (rule converted_names)
  then obtain r q where
    b: "bands (converted (masked (selected x))) = [(''ST_B10'', r), (''QA_PIXEL'', q)]"
    by (cases "bands (converted (masked (selected x)))") auto
  have "select [''ST_B10''] (mean_coll ?coll) = Inr (composite ?coll)"
    by (simp add: f mean_coll_def b select_def composite_def)
  then show ?thesis
    by (simp add: one_band_def mean_LandsatST_def landsatST_eq [OF assms(1)])
qed

lemma one_band_empty:
  assumes "\<forall>img \<in> set src. has_schema img" and "filter (spec_included isect) src = []"
  shows "one_band isect src = Inl (BandNotFound ''ST_B10'')"
  by (simp add: one_band_def mean_LandsatST_def landsatST_eq [OF assms(1)] assms(2)
      mean_coll_def select_def)

subsection \<open>The example archive\<close>

lemma box_aoi: "box aoi = Some ((- 107.655533, - 105.265001), (34.233749, 36.242138))"
  by (simp add: aoi_def span_def)

lemma grid_covers_aoi:
  "grid_covers aoi (2, 0)" "\<not> grid_covers aoi (3, 0)"
  by (simp_all add: grid_covers_def box_aoi)

lemma has_schema_scene: "has_schema (scene idx st qa cc d y)"
  by (simp add: has_schema_def scene_def)

lemma in_window_scene:
  "in_window box_intersects (scene idx st qa cc d y)
     = (182 \<le> d \<and> d \<le> 243 \<and> 2013 \<le> y \<and> y \<le> 2022)"
  by (simp add: in_window_def scene_def box_intersects_def box_aoi span_def)

lemma spec_included_scene:
  "spec_included box_intersects (scene idx st qa cc d y)
     = (182 \<le> d \<and> d \<le> 243 \<and> 2013 \<le> y \<and> y \<le> 2022 \<and> cc < 20)"
  by (auto simp: spec_included_def in_window_scene) (simp_all add: scene_def)

lemma not_in_window_far: "\<not> in_window box_intersects far_scene"
  by (simp add: in_window_def far_scene_def scene_def box_intersects_def box_aoi span_def)

lemma in_window_count: "in_window box_intersects count_scene"
  by (simp add: count_scene_def in_window_scene)

lemma in_window_hazy: "in_window box_intersects hazy_scene"
  by (simp add: hazy_scene_def in_window_scene)

lemma schema_archive: "list_all has_schema archive"
  by (simp add: archive_def cloudy_scene_def gappy_scene_def count_scene_def hazy_scene_def
      winter_scene_def early_scene_def far_scene_def has_schema_scene)
     (simp add: has_schema_def scene_def)

lemma distinct_archive: "distinct (map system_index archive)"
  by (simp add: archive_def cloudy_scene_def gappy_scene_def count_scene_def hazy_scene_def
      winter_scene_def early_scene_def far_scene_def scene_def)

lemma spec_included_archive:
  "filter (spec_included box_intersects) archive = [cloudy_scene, gappy_scene, count_scene]"
  by (simp add: archive_def cloudy_scene_def gappy_scene_def count_scene_def hazy_scene_def
      winter_scene_def early_scene_def spec_included_scene)
     (simp add: spec_included_def not_in_window_far)

lemma band_at_cloudy: "band_at ''ST_B10'' p cloudy_scene = Some 44000"
  by (simp add: band_at_def cloudy_scene_def scene_def uniform_def)

lemma band_at_gappy: "band_at ''ST_B10'' p gappy_scene = (if p = (0, 0) then None else Some 44000)"
  by (simp add: band_at_def gappy_scene_def scene_def gap_st_def)

lemma band_at_count: "band_at ''ST_B10'' p count_scene = Some 20000"
  by (simp add: band_at_def count_scene_def scene_def uniform_def)

lemma band_at_composite:
  "band_at ''ST_B10'' p (composite coll) = mean_pixel (map (band_at ''ST_B10'' p) coll)"
  by (simp add: composite_def band_at_def)

lemma band_at_prepared_scene:
  "band_at ''ST_B10'' p (converted (masked (selected (scene idx st qa cc d y))))
     = (if cloud_free qa p
        then map_option (\<lambda>raw. ((raw * 0.00341802 + 149.0) - 273.15) * 1.8 + 32)
               (map_option real_of_int (st p))
        else None)"
  by (simp add: selected_def scene_def masked_def converted_def band_at_def as_real_fahrenheit)

lemma clip_mean_ST_archive:
  "clip_mean_ST box_intersects grid_covers archive
     = Inr (clip grid_covers
         (composite [converted (masked (selected cloudy_scene)),
            converted (masked (selected gappy_scene)),
            converted (masked (selected count_scene))]) aoi)"
proof -
  have s: "\<forall>img \<in> set archive. has_schema img"
    using schema_archive by (simp add: list_all_iff)
  show ?thesis
    using one_band_eq [OF s, of box_intersects]
    by (simp add: clip_mean_ST_def spec_included_archive STUDYBOUNDS_def)
qed

text \<open>
  At pixel (2, 0) all three scenes of the season are clear: the composite is the mean of
  79.237184, 79.237184 and -68.42128 degrees Fahrenheit.
\<close>

lemma composite_archive_2_0:
  "band_at ''ST_B10'' (2, 0)
     (composite [converted (masked (selected cloudy_scene)),
        converted (masked (selected gappy_scene)),
        converted (masked (selected count_scene))])
   = Some 30.017696"
  by (simp add: band_at_composite cloudy_scene_def gappy_scene_def count_scene_def
      band_at_prepared_scene cloud_free_def mixed_qa_def uniform_def gap_st_def mean_pixel_def)

subsection \<open>The collection filters\<close>

text \<open>
  C4. On every source collection whose images have the product's bands, the filtered
  collection is computed, and it holds, in order, exactly the images of the source that
  intersect the area of interest, fall in the day-of-year range [182, 243] and the year
  range [2013, 2022] and report a cloud cover strictly below 20 (masked, with their
  metadata unchanged); when the indices of the source are distinct, an image of the source
  is in the filtered collection if and only if it satisfies the four conditions.
\<close>

theorem filtered_L8_membership:
  assumes "list_all has_schema src"
  shows "\<exists>out. filtered_L8 isect src = Inr out \<and>
           map system_index out = map system_index (filter (spec_included isect) src) \<and>
           (distinct (map system_index src) \<longrightarrow>
              (\<forall>img \<in> set src.
                 (system_index img \<in> set (map system_index out)) = spec_included isect img))"
proof -
  let ?out = "map (masked \<circ> selected) (filter (spec_included isect) src)"
  from assms have schema: "\<forall>img \<in> set src. has_schema img"
    by (simp add: list_all_iff)
  have idx: "map system_index ?out = map system_index (filter (spec_included isect) src)"
    by simp
  have "\<forall>img \<in> set src.
          (system_index img \<in> set (map system_index ?out)) = spec_included isect img"
    if d: "distinct (map system_index src)"
  proof
    fix img assume m: "img \<in> set src"
    from d have inj: "inj_on system_index (set src)"
      by (simp add: distinct_map)
    show "(system_index img \<in> set (map system_index ?out)) = spec_included isect img"
    proof
      assume "system_index img \<in> set (map system_index ?out)"
      then obtain j where
        j: "j \<in> set src" "spec_included isect j" "system_index j = system_index img"
        unfolding idx by auto
      with inj m have "j = img" by (auto dest: inj_onD)
      with j show "spec_included isect img" by simp
    next
      assume "spec_included isect img"
      with m show "system_index img \<in> set (map system_index ?out)"
        unfolding idx by auto
    qed
  qed
  with idx filtered_L8_eq [OF schema, of isect] show ?thesis by blast
qed

theorem filtered_L8_membership_witness:
  "list_all has_schema archive \<and> distinct (map system_index archive) \<and>
   (\<exists>out. filtered_L8 box_intersects archive = Inr out \<and>
      map system_index out
        = [''LC08_033036_20150719'', ''LC08_033036_20160806'', ''LC08_033036_20170708'']) \<and>
   spec_included box_intersects cloudy_scene \<and>
   \<not> spec_included box_intersects hazy_scene \<and>
   \<not> spec_included box_intersects winter_scene \<and>
   \<not> spec_included box_intersects early_scene \<and>
   \<not> spec_included box_intersects far_scene"
proof -
  from filtered_L8_membership [OF schema_archive, of box_intersects] obtain out where
    run: "filtered_L8 box_intersects archive = Inr out" and
    idx: "map system_index out
            = map system_index (filter (spec_included box_intersects) archive)"
    by blast
  have i: "map system_index out
        = [''LC08_033036_20150719'', ''LC08_033036_20160806'', ''LC08_033036_20170708'']"
    unfolding idx spec_included_archive
    by (simp add: cloudy_scene_def gappy_scene_def count_scene_def scene_def)
  have a: "spec_included box_intersects cloudy_scene"
    by (simp add: cloudy_scene_def spec_included_scene)
  have b: "\<not> spec_included box_intersects hazy_scene"
    by (simp add: hazy_scene_def spec_included_scene)
  have c: "\<not> spec_included box_intersects winter_scene"
    by (simp add: winter_scene_def spec_included_scene)
  have d: "\<not> spec_included box_intersects early_scene"
    by (simp add: early_scene_def spec_included_scene)
  have e: "\<not> spec_included box_intersects far_scene"
    by (simp add: spec_included_def not_in_window_far)
  from schema_archive distinct_archive run i a b c d e show ?thesis by simp
qed

text \<open>
  C6, as stated, fails: the scene that reports a cloud cover of exactly 20 passes the
  spatial and temporal filters (it is in \<open>L8\<close>) and is not in the filtered collection.
\<close>

theorem cloud_cover_twenty_counterexample:
  "L8 box_intersects [hazy_scene] = Inr [masked (selected hazy_scene)] \<and>
   properties (masked (selected hazy_scene)) ''CLOUD_COVER'' = Some 20 \<and>
   filtered_L8 box_intersects [hazy_scene] = Inr []"
proof -
  have s: "\<forall>img \<in> set [hazy_scene]. has_schema img"
    by (simp add: hazy_scene_def has_schema_scene)
  have n: "\<not> spec_included box_intersects hazy_scene"
    by (simp add: hazy_scene_def spec_included_scene)
  have p: "properties hazy_scene ''CLOUD_COVER'' = Some 20"
    by (simp add: hazy_scene_def scene_def)
  show ?thesis
    by (simp add: L8_eq [OF s] filtered_L8_eq [OF s] in_window_hazy n p)
qed

text \<open>
  C6, amended. The cloud-cover post-filter keeps exactly the images of \<open>L8\<close> that report
  a cloud cover strictly below 20 and drops the others; in particular every image whose
  reported cloud cover equals 20 is dropped.
\<close>

theorem cloud_cover_strictly_below:
  assumes "L8 isect src = Inr c"
  shows "\<exists>out. filtered_L8 isect src = Inr out \<and>
           (\<forall>img. (img \<in> set out) =
              (img \<in> set c \<and> (\<exists>v. properties img ''CLOUD_COVER'' = Some v \<and> v < 20))) \<and>
           (\<forall>img. properties img ''CLOUD_COVER'' = Some 20 \<longrightarrow> img \<notin> set out)"
  using assms
  by (auto simp: filtered_L8_def filter_coll_def split: option.splits)

theorem cloud_cover_strictly_below_witness:
  "L8 box_intersects [count_scene, hazy_scene]
     = Inr [masked (selected count_scene), masked (selected hazy_scene)] \<and>
   properties (masked (selected count_scene)) ''CLOUD_COVER'' = Some 5 \<and>
   properties (masked (selected hazy_scene)) ''CLOUD_COVER'' = Some 20 \<and>
   (\<exists>out. filtered_L8 box_intersects [count_scene, hazy_scene] = Inr out \<and>
      masked (selected count_scene) \<in> set out \<and>
      masked (selected hazy_scene) \<notin> set out)"
proof -
  have s: "\<forall>img \<in> set [count_scene, hazy_scene]. has_schema img"
    by (simp add: count_scene_def hazy_scene_def has_schema_scene)
  have l: "L8 box_intersects [count_scene, hazy_scene]
     = Inr [masked (selected count_scene), masked (selected hazy_scene)]"
    by (simp add: L8_eq [OF s] in_window_count in_window_hazy)
  have p5: "properties (masked (selected count_scene)) ''CLOUD_COVER'' = Some 5"
    by (simp add: count_scene_def scene_def)
  have p20: "properties (masked (selected hazy_scene)) ''CLOUD_COVER'' = Some 20"
    by (simp add: hazy_scene_def scene_def)
  from cloud_cover_strictly_below [OF l] obtain out where
    run: "filtered_L8 box_intersects [count_scene, hazy_scene] = Inr out" and
    mem: "\<And>img. (img \<in> set out) =
              (img \<in> set [masked (selected count_scene), masked (selected hazy_scene)] \<and>
               (\<exists>v. properties img ''CLOUD_COVER'' = Some v \<and> v < 20))" and
    drop: "\<And>img. properties img ''CLOUD_COVER'' = Some 20 \<Longrightarrow> img \<notin> set out"
    by blast
  have k: "masked (selected count_scene) \<in> set out"
    unfolding mem using p5 by simp
  have d: "masked (selected hazy_scene) \<notin> set out"
    using drop [OF p20] .
  from l p5 p20 run k d show ?thesis by simp
qed

subsection \<open>The temporal mean\<close>

lemma foldl_mean_step:
  "foldl mean_step (s, n) (map (band_at b p) coll)
     = (s + sum_list (valid_values b p coll), n + length (valid_values b p coll))"
  by (induction coll arbitrary: s n) (auto split: option.splits)

lemma mean_pixel_valid_values:
  "mean_pixel (map (band_at b p) coll) =
     (if valid_values b p coll = [] then None
      else Some (sum_list (valid_values b p coll) / real (length (valid_values b p coll))))"
  by (simp add: mean_pixel_def foldl_mean_step)

lemma map_of_keyed:
  "b \<in> fst ` set bs \<Longrightarrow> map_of (map (\<lambda>(k, _). (k, g k)) bs) b = Some (g b)"
  by (induction bs) auto

lemma band_at_mean_coll:
  "b \<in> fst ` set (bands first) \<Longrightarrow>
   band_at b p (mean_coll (first # rest)) = mean_pixel (map (band_at b p) (first # rest))"
  by (simp add: band_at_def mean_coll_def map_of_keyed)

text \<open>
  C3. For every non-empty collection, every band \<open>b\<close> of its first image and every pixel
  \<open>p\<close>, with \<open>v1 .. vk\<close> the values of the images that are valid at \<open>p\<close> in \<open>b\<close>: if
  \<open>k = 0\<close> the pixel is invalid in the mean image, and otherwise its value there is
  \<open>(v1 + ... + vk) / k\<close>.
\<close>

theorem mean_coll_valid_values:
  assumes "b \<in> fst ` set (bands first)"
  shows "(valid_values b p (first # rest) = [] \<longrightarrow> \<not> valid_at (mean_coll (first # rest)) b p) \<and>
         (valid_values b p (first # rest) \<noteq> [] \<longrightarrow>
            band_at b p (mean_coll (first # rest)) =
              Some (sum_list (valid_values b p (first # rest))
                    / real (length (valid_values b p (first # rest)))))"
  unfolding valid_at_def band_at_mean_coll [OF assms] mean_pixel_valid_values
  by simp

theorem mean_coll_valid_values_witness:
  "''ST_B10'' \<in> fst ` set (bands gappy_scene) \<and>
   valid_values ''ST_B10'' (0, 0) [gappy_scene] = [] \<and>
   \<not> valid_at (mean_coll [gappy_scene]) ''ST_B10'' (0, 0) \<and>
   valid_values ''ST_B10'' (0, 0) [gappy_scene, cloudy_scene, count_scene] = [44000, 20000] \<and>
   band_at ''ST_B10'' (0, 0) (mean_coll [gappy_scene, cloudy_scene, count_scene]) = Some 32000"
proof -
  have b: "''ST_B10'' \<in> fst ` set (bands gappy_scene)"
    by (simp add: gappy_scene_def scene_def)
  have v0: "valid_values ''ST_B10'' (0, 0) [gappy_scene] = []"
    by (simp add: band_at_gappy)
  have v2: "valid_values ''ST_B10'' (0, 0) [gappy_scene, cloudy_scene, count_scene]
              = [44000, 20000]"
    by (simp add: band_at_gappy band_at_cloudy band_at_count)
  have m0: "\<not> valid_at (mean_coll [gappy_scene]) ''ST_B10'' (0, 0)"
    using mean_coll_valid_values [OF b, of "(0, 0)" "[]"] v0 by simp
  have m2: "band_at ''ST_B10'' (0, 0) (mean_coll [gappy_scene, cloudy_scene, count_scene])
              = Some 32000"
    using mean_coll_valid_values [OF b, of "(0, 0)" "[cloudy_scene, count_scene]"] v2 by simp
  from b v0 m0 v2 m2 show ?thesis by simp
qed

subsection \<open>Clipping and band selection\<close>

lemma pick_bands_names: "pick_bands bs ns = Inr rs \<Longrightarrow> map fst rs = ns"
  by (induction ns arbitrary: rs) (auto split: option.splits sum.splits)

lemma select_names: "select ns img = Inr out \<Longrightarrow> map fst (bands out) = ns"
  by (auto simp: select_def pick_bands_names split: sum.splits)

lemma select_single:
  assumes "map fst (bands img) = [n]"
  shows "select [n] img = Inr img"
proof -
  from assms obtain r where "bands img = [(n, r)]"
    by (cases "bands img") auto
  then show ?thesis
    by (simp add: select_def)
qed

lemma bands_clip: "map fst (bands (clip cov img g)) = map fst (bands img)"
  by (simp add: clip_def case_prod_unfold comp_def)

lemma band_at_clip:
  "band_at b p (clip cov img g) = (if cov g p then band_at b p img else None)"
  by (simp add: clip_def band_at_def map_of_map_bands as_real_restrict split: option.splits)

text \<open>
  C7. Whenever the chain returns the clipped mean raster, every pixel that is valid in a
  band of it is covered by the area-of-interest polygon, and every pixel not covered by the
  polygon is invalid in every band.
\<close>

theorem clip_mean_ST_containment:
  assumes "clip_mean_ST isect cov src = Inr c"
  shows "(valid_at c b p \<longrightarrow> cov aoi p) \<and> (\<not> cov aoi p \<longrightarrow> \<not> valid_at c b p)"
proof -
  from assms obtain ob where c: "c = clip cov ob aoi"
    by (auto simp: clip_mean_ST_def STUDYBOUNDS_def split: sum.splits)
  show ?thesis
    by (simp add: c valid_at_def band_at_clip)
qed

theorem clip_mean_ST_containment_witness:
  "clip_mean_ST box_intersects grid_covers archive
     = Inr (clip grid_covers
         (composite [converted (masked (selected cloudy_scene)),
            converted (masked (selected gappy_scene)),
            converted (masked (selected count_scene))]) aoi) \<and>
   valid_at (clip grid_covers
         (composite [converted (masked (selected cloudy_scene)),
            converted (masked (selected gappy_scene)),
            converted (masked (selected count_scene))]) aoi) ''ST_B10'' (2, 0) \<and>
   grid_covers aoi (2, 0) \<and>
   \<not> grid_covers aoi (3, 0) \<and>
   \<not> valid_at (clip grid_covers
         (composite [converted (masked (selected cloudy_scene)),
            converted (masked (selected gappy_scene)),
            converted (masked (selected count_scene))]) aoi) ''ST_B10'' (3, 0)"
proof -
  let ?c = "clip grid_covers
         (composite [converted (masked (selected cloudy_scene)),
            converted (masked (selected gappy_scene)),
            converted (masked (selected count_scene))]) aoi"
  have v: "valid_at ?c ''ST_B10'' (2, 0)"
    by (simp add: valid_at_def band_at_clip grid_covers_aoi composite_archive_2_0)
  from clip_mean_ST_containment [OF clip_mean_ST_archive, of "''ST_B10''" "(2, 0)"]
       clip_mean_ST_containment [OF clip_mean_ST_archive, of "''ST_B10''" "(3, 0)"]
       v grid_covers_aoi clip_mean_ST_archive
  show ?thesis by simp
qed

text \<open>
  C9. Selecting \<^verbatim>\<open>ST_B10\<close> from an image whose only band is \<^verbatim>\<open>ST_B10\<close> returns that image;
  in particular, whenever the chain returns the clipped mean raster, the second selection
  (\<open>values_ST\<close>) returns the same raster.
\<close>

theorem select_single_band_identity:
  "(map fst (bands img) = [''ST_B10''] \<longrightarrow> select [''ST_B10''] img = Inr img) \<and>
   (clip_mean_ST isect cov src = Inr c \<longrightarrow> values_ST isect cov src = Inr c)"
proof (intro conjI impI)
  assume "map fst (bands img) = [''ST_B10'']"
  then show "select [''ST_B10''] img = Inr img"
    by (rule select_single)
next
  assume run: "clip_mean_ST isect cov src = Inr c"
  then obtain ob where ob: "one_band isect src = Inr ob" and c: "c = clip cov ob STUDYBOUNDS"
    by (auto simp: clip_mean_ST_def split: sum.splits)
  from ob have "map fst (bands ob) = [''ST_B10'']"
    by (auto simp: one_band_def split: sum.splits dest: select_names)
  then have "map fst (bands c) = [''ST_B10'']"
    by (simp add: c bands_clip)
  then have "select [''ST_B10''] c = Inr c"
    by (rule select_single)
  with run show "values_ST isect cov src = Inr c"
    by (simp add: values_ST_def)
qed

theorem select_single_band_identity_witness:
  "map fst (bands (composite [count_scene])) = [''ST_B10''] \<and>
   select [''ST_B10''] (composite [count_scene]) = Inr (composite [count_scene]) \<and>
   clip_mean_ST box_intersects grid_covers archive
     = Inr (clip grid_covers
         (composite [converted (masked (selected cloudy_scene)),
            converted (masked (selected gappy_scene)),
            converted (masked (selected count_scene))]) aoi) \<and>
   values_ST box_intersects grid_covers archive
     = Inr (clip grid_covers
         (composite [converted (masked (selected cloudy_scene)),
            converted (masked (selected gappy_scene)),
            converted (masked (selected count_scene))]) aoi)"
proof -
  have n: "map fst (bands (composite [count_scene])) = [''ST_B10'']"
    by (simp add: composite_def)
  from select_single_band_identity
         [of "composite [count_scene]" box_intersects grid_covers archive
             "clip grid_covers
               (composite [converted (masked (selected cloudy_scene)),
                  converted (masked (selected gappy_scene)),
                  converted (masked (selected count_scene))]) aoi"]
       n clip_mean_ST_archive
  show ?thesis by simp
qed

end
